theory Spec2Isabelle
  imports Main "HOL-Library.Sublist"
begin

section \<open>Strings and errors\<close>

text \<open>
  A Python \<open>str\<close> is a sequence of Unicode code points, and \<open>len\<close> counts code points.
  A string is therefore a list of code points (the values of \<open>ord\<close>), not a list of
  bytes. \<open>str\<close> writes an ASCII literal as such a list.
\<close>

type_synonym pystr = "int list"

definition str :: "string \<Rightarrow> pystr" where
  "str s = map of_char s"

text \<open>
  The exceptions that the modelled functions can meet. \<open>KeyboardInterrupt\<close> derives from
  \<open>BaseException\<close> only, every other one from \<open>Exception\<close>; that is what
  \<open>except Exception\<close> tests.
\<close>

datatype py_error =
    IndexError
  | FileNotFoundError
  | PermissionError
  | OSError
  | UnicodeDecodeError
  | KeyboardInterrupt

fun is_Exception :: "py_error \<Rightarrow> bool" where
  "is_Exception KeyboardInterrupt = False"
| "is_Exception _ = True"

section \<open>Constants\<close>

definition RPI_SERIAL_PATTERN :: pystr where
  "RPI_SERIAL_PATTERN = str ''Serial''"

definition RPI_REVISION_PATTERN :: pystr where
  "RPI_REVISION_PATTERN = str ''Revision''"

definition EUI_FIRST_OCTECT_LOCAL_ADMINISTRED :: pystr where
  "EUI_FIRST_OCTECT_LOCAL_ADMINISTRED = str ''02''"

definition INVALID_EUI :: pystr where
  "INVALID_EUI = str ''FFFFFFFFFFFFFFFF''"

definition EUI_CHARS_LENGTH :: nat where
  "EUI_CHARS_LENGTH = 16"

text \<open>The separator literal \<open>": "\<close> of both \<open>line.split(": ", 1)\<close> calls.\<close>

definition SEP :: pystr where
  "SEP = str '': ''"

section \<open>The string operations of the interpreter that the script calls\<close>

text \<open>
  \<open>str.splitlines()\<close>: a line ends at a line feed, vertical tab, form feed, carriage
  return, file, group or record separator, next line (U+0085), line separator (U+2028) or
  paragraph separator (U+2029); a carriage return followed by a line feed is one boundary.
  The boundaries are not kept, and text after the last boundary is a line only if it is
  not empty. \<open>cur\<close> holds the characters of the line being read.
\<close>

definition is_line_boundary :: "int \<Rightarrow> bool" where
  "is_line_boundary c = (c \<in> set [10, 11, 12, 13, 28, 29, 30, 133, 8232, 8233])"

fun split_acc :: "pystr \<Rightarrow> pystr \<Rightarrow> pystr list" where
  "split_acc cur [] = (if cur = [] then [] else [cur])"
| "split_acc cur (c # cs) =
     (if is_line_boundary c
      then (case cs of
              [] \<Rightarrow> [cur]
            | d # ds \<Rightarrow>
                if c = 13 \<and> d = 10 then cur # split_acc [] ds else cur # split_acc [] cs)
      else split_acc (cur @ [c]) cs)"

definition splitlines :: "pystr \<Rightarrow> pystr list" where
  "splitlines s = split_acc [] s"

text \<open>\<open>pat in line\<close>: \<open>pat\<close> occurs in \<open>line\<close> as a contiguous substring.\<close>

fun contains :: "pystr \<Rightarrow> pystr \<Rightarrow> bool" where
  "contains pat [] = (pat = [])"
| "contains pat (c # cs) = (prefix pat (c # cs) \<or> contains pat cs)"

text \<open>
  \<open>s.split(sep, 1)\<close> for a separator that is not empty (the script's only separator
  is \<open>": "\<close>): \<open>find_split\<close> looks for the leftmost occurrence of \<open>sep\<close> and gives
  the text before it and the text after it; \<open>split_once\<close> is the list that
  \<open>split\<close> returns, of two elements when the separator occurs and of one, the whole
  string, when it does not.
\<close>

fun find_split :: "pystr \<Rightarrow> pystr \<Rightarrow> (pystr \<times> pystr) option" where
  "find_split sep [] = None"
| "find_split sep (c # cs) =
     (if prefix sep (c # cs) then Some ([], drop (length sep) (c # cs))
      else map_option (\<lambda>(a, b). (c # a, b)) (find_split sep cs))"

definition split_once :: "pystr \<Rightarrow> pystr \<Rightarrow> pystr list" where
  "split_once sep s = (case find_split sep s of None \<Rightarrow> [s] | Some (a, b) \<Rightarrow> [a, b])"

text \<open>\<open>xs[i]\<close> for an index that is not negative: out of range raises \<open>IndexError\<close>.\<close>

definition py_index :: "'a list \<Rightarrow> nat \<Rightarrow> py_error + 'a" where
  "py_index xs i = (if i < length xs then Inr (xs ! i) else Inl IndexError)"

text \<open>
  \<open>str.upper()\<close> replaces every code point by its full uppercase mapping, which may be
  more than one code point. The mapping is the interpreter's Unicode table and not part of
  the script: it is the parameter \<open>up\<close>. \<open>ascii_upper_ok\<close> states what every such
  table does on ASCII: the letters a to z go to A to Z and nothing else changes.
  \<open>ascii_upper_char\<close> is the table that changes nothing outside ASCII.
\<close>

definition upper :: "(int \<Rightarrow> pystr) \<Rightarrow> pystr \<Rightarrow> pystr" where
  "upper up s = concat (map up s)"

definition ascii_upper_char :: "int \<Rightarrow> pystr" where
  "ascii_upper_char c = [if 97 \<le> c \<and> c \<le> 122 then c - 32 else c]"

definition ascii_upper_ok :: "(int \<Rightarrow> pystr) \<Rightarrow> bool" where
  "ascii_upper_ok up = list_all (\<lambda>c. up c = ascii_upper_char c) [0..127]"

section \<open>The script\<close>

text \<open>
  \<open>file_read_text\<close>: the file system is the environment. \<open>fs_open\<close> is the outcome of
  \<open>open(file_path, "r", encoding="utf-8")\<close>, \<open>fs_read\<close> that of \<open>f.read()\<close>, the
  decoded text or the exception raised, and \<open>fs_close\<close> the exception, if any, that the
  close of the file raises. Leaving the \<open>with\<close> block closes the file, whether the read
  returned or raised, and an exception of the close replaces that of the read; the block is
  inside the \<open>try\<close>. \<open>with_open_read\<close> is the outcome of the whole block.
  \<open>except Exception\<close> turns an exception that is an \<open>Exception\<close> into the empty
  string; any other propagates.
\<close>

record 'h filesystem =
  fs_open :: "pystr \<Rightarrow> py_error + 'h"
  fs_read :: "'h \<Rightarrow> py_error + pystr"
  fs_close :: "'h \<Rightarrow> py_error option"

definition with_open_read :: "'h filesystem \<Rightarrow> pystr \<Rightarrow> py_error + pystr" where
  "with_open_read fs file_path =
     (case fs_open fs file_path of
        Inl e \<Rightarrow> Inl e
      | Inr f \<Rightarrow>
          (case fs_read fs f of
             Inl e \<Rightarrow> (case fs_close fs f of Some e' \<Rightarrow> Inl e' | None \<Rightarrow> Inl e)
           | Inr read \<Rightarrow> (case fs_close fs f of Some e' \<Rightarrow> Inl e' | None \<Rightarrow> Inr read)))"

definition file_read_text :: "'h filesystem \<Rightarrow> pystr \<Rightarrow> py_error + pystr" where
  "file_read_text fs file_path =
     (case with_open_read fs file_path of
        Inl e \<Rightarrow> if is_Exception e then Inr [] else Inl e
      | Inr read \<Rightarrow> Inr read)"

text \<open>
  The loop of \<open>get_rpi_serial_number\<close> and of \<open>get_rpi_revision\<close>, which differ in the
  pattern only: \<open>acc\<close> is the variable \<open>serial_num\<close> (or \<open>rev\<close>), overwritten at each
  line that contains the pattern by \<open>line.split(": ", 1)[1]\<close>, which raises
  \<open>IndexError\<close> and ends the function when the line has no separator.
\<close>

fun scan_lines :: "pystr \<Rightarrow> pystr \<Rightarrow> pystr list \<Rightarrow> py_error + pystr" where
  "scan_lines pat acc [] = Inr acc"
| "scan_lines pat acc (line # ls) =
     (if contains pat line
      then (case py_index (split_once SEP line) 1 of
              Inl e \<Rightarrow> Inl e
            | Inr v \<Rightarrow> scan_lines pat v ls)
      else scan_lines pat acc ls)"

definition get_rpi_serial_number :: "pystr \<Rightarrow> py_error + pystr" where
  "get_rpi_serial_number rpi_info = scan_lines RPI_SERIAL_PATTERN [] (splitlines rpi_info)"

definition get_rpi_revision :: "pystr \<Rightarrow> py_error + pystr" where
  "get_rpi_revision rpi_info = scan_lines RPI_REVISION_PATTERN [] (splitlines rpi_info)"

text \<open>
  \<open>generate_eui\<close>: both fields are extracted first, so an \<open>IndexError\<close> of either
  extraction leaves the function before any length is looked at. \<open>assemble\<close> is the
  value of \<open>eui\<close> after the \<open>format\<close> call, the serial number already cut to its last
  eight characters when it had sixteen.
\<close>

definition assemble :: "pystr \<Rightarrow> pystr \<Rightarrow> pystr" where
  "assemble rpi_revision rpi_serial_number =
     EUI_FIRST_OCTECT_LOCAL_ADMINISTRED @ rpi_revision @
       (if length rpi_serial_number = 16 then drop 8 rpi_serial_number
        else rpi_serial_number)"

definition generate_eui :: "(int \<Rightarrow> pystr) \<Rightarrow> pystr \<Rightarrow> py_error + pystr" where
  "generate_eui up rpi_info =
     (case get_rpi_serial_number rpi_info of
        Inl e \<Rightarrow> Inl e
      | Inr rpi_serial_number \<Rightarrow>
          (case get_rpi_revision rpi_info of
             Inl e \<Rightarrow> Inl e
           | Inr rpi_revision \<Rightarrow>
               if length rpi_serial_number \<noteq> 16 \<and> length rpi_serial_number \<noteq> 8
               then Inr INVALID_EUI
               else if length rpi_revision \<noteq> 6 then Inr INVALID_EUI
               else let eui = assemble rpi_revision rpi_serial_number
                    in if length eui \<noteq> EUI_CHARS_LENGTH then Inr INVALID_EUI
                       else Inr (upper up eui)))"

text \<open>
  The hexadecimal digits, in either case and in upper case only, as sets of code points.
\<close>

definition is_hex_digit :: "int \<Rightarrow> bool" where
  "is_hex_digit c = (48 \<le> c \<and> c \<le> 57 \<or> 65 \<le> c \<and> c \<le> 70 \<or> 97 \<le> c \<and> c \<le> 102)"

definition is_upper_hex_digit :: "int \<Rightarrow> bool" where
  "is_upper_hex_digit c = (48 \<le> c \<and> c \<le> 57 \<or> 65 \<le> c \<and> c \<le> 70)"

text \<open>
  A file system with a readable file, a file whose read fails, a file whose close fails
  after a read that returned, a file that may not be opened, and nothing else.
\<close>

definition example_fs :: "nat filesystem" where
  "example_fs =
     \<lparr>fs_open = (\<lambda>p. if p = str ''/proc/cpuinfo'' then Inr 0
                      else if p = str ''/dev/broken'' then Inr 1
                      else if p = str ''/mnt/stale'' then Inr 2
                      else if p = str ''/root/secret'' then Inl PermissionError
                      else Inl FileNotFoundError),
      fs_read = (\<lambda>h. if h = 1 then Inl OSError else Inr (str ''Serial : 90ABCDEF'')),
      fs_close = (\<lambda>h. if h = 2 then Some OSError else None)\<rparr>"

section \<open>Facts about the string operations\<close>

lemma find_split_None: "find_split sep s = None \<longleftrightarrow> \<not> contains sep s \<or> (sep = [] \<and> s = [])"
  by (induction s) auto

lemma SEP_not_empty: "SEP \<noteq> []"
  by (simp add: SEP_def str_def)

lemma split_once_second:
  assumes "contains SEP l"
  shows "\<exists>v. py_index (split_once SEP l) 1 = Inr v"
proof -
  from assms have "find_split SEP l \<noteq> None"
    by (simp add: find_split_None SEP_not_empty)
  then obtain a b where "find_split SEP l = Some (a, b)" by auto
  then show ?thesis by (simp add: split_once_def py_index_def)
qed

lemma split_once_no_sep:
  assumes "\<not> contains SEP l"
  shows "py_index (split_once SEP l) 1 = Inl IndexError"
proof -
  from assms have "find_split SEP l = None" by (simp add: find_split_None)
  then show ?thesis by (simp add: split_once_def py_index_def)
qed

lemma prefix_shorter:
  assumes "prefix s (xs @ ys)" "length s \<le> length xs"
  shows "prefix s xs"
proof -
  have "prefix xs (xs @ ys)" by simp
  from assms(1) this assms(2) show ?thesis by (rule prefix_length_prefix)
qed

lemma find_split_first_snoc:
  assumes "\<not> contains (bs @ [z]) (pre @ bs)"
  shows "find_split (bs @ [z]) (pre @ (bs @ [z]) @ v) = Some (pre, v)"
  using assms
proof (induction pre)
  case Nil
  obtain c cs where e: "(bs @ [z]) @ v = c # cs" by (cases bs) auto
  have "prefix (bs @ [z]) (c # cs)" unfolding e [symmetric] by simp
  then have "find_split (bs @ [z]) (c # cs) = Some ([], drop (length (bs @ [z])) (c # cs))"
    by simp
  then show ?case unfolding e [symmetric] by simp
next
  case (Cons c p)
  have "\<not> prefix (bs @ [z]) (((c # p) @ bs) @ (z # v))"
  proof
    assume "prefix (bs @ [z]) (((c # p) @ bs) @ (z # v))"
    moreover have "length (bs @ [z]) \<le> length ((c # p) @ bs)" by simp
    ultimately have "prefix (bs @ [z]) ((c # p) @ bs)" by (rule prefix_shorter)
    then have "contains (bs @ [z]) ((c # p) @ bs)" by simp
    with Cons.prems show False by simp
  qed
  moreover from Cons.prems have "\<not> contains (bs @ [z]) (p @ bs)" by simp
  ultimately show ?case using Cons.IH by simp
qed

lemma find_split_first:
  assumes "sep \<noteq> []" "\<not> contains sep (pre @ butlast sep)"
  shows "find_split sep (pre @ sep @ v) = Some (pre, v)"
proof -
  from assms(1) obtain bs z where s: "sep = bs @ [z]" by (cases sep rule: rev_cases) auto
  with assms(2) have "\<not> contains (bs @ [z]) (pre @ bs)" by simp
  then show ?thesis unfolding s by (rule find_split_first_snoc)
qed

lemma ascii_upper_okD:
  assumes "ascii_upper_ok up" "0 \<le> c" "c \<le> 127"
  shows "up c = ascii_upper_char c"
  using assms unfolding ascii_upper_ok_def list_all_iff set_upto by simp

lemma ascii_upper_char_ok: "ascii_upper_ok ascii_upper_char"
  unfolding ascii_upper_ok_def list_all_iff by simp

lemmas text_defs = str_def RPI_SERIAL_PATTERN_def RPI_REVISION_PATTERN_def SEP_def
  split_once_def py_index_def

section \<open>Facts about the extraction loop\<close>

lemma scan_lines_no_match:
  "\<forall>l\<in>set ls. \<not> contains pat l \<Longrightarrow> scan_lines pat acc ls = Inr acc"
  by (induction ls arbitrary: acc) auto

lemma scan_lines_append:
  "scan_lines pat acc (xs @ ys) =
     (case scan_lines pat acc xs of Inl e \<Rightarrow> Inl e | Inr a \<Rightarrow> scan_lines pat a ys)"
  by (induction xs arbitrary: acc) (auto split: sum.splits)

lemma scan_lines_returns:
  "\<forall>l\<in>set ls. contains pat l \<longrightarrow> contains SEP l \<Longrightarrow> \<exists>v. scan_lines pat acc ls = Inr v"
proof (induction ls arbitrary: acc)
  case Nil
  then show ?case by simp
next
  case (Cons l ls)
  show ?case
  proof (cases "contains pat l")
    case True
    with Cons.prems have "contains SEP l" by simp
    then obtain v where "py_index (split_once SEP l) 1 = Inr v"
      using split_once_second by blast
    with True Cons show ?thesis by simp
  next
    case False
    with Cons show ?thesis by simp
  qed
qed

lemma scan_lines_raises:
  "\<exists>l\<in>set ls. contains pat l \<and> \<not> contains SEP l \<Longrightarrow> scan_lines pat acc ls = Inl IndexError"
proof (induction ls arbitrary: acc)
  case Nil
  then show ?case by simp
next
  case (Cons l ls)
  show ?case
  proof (cases "contains pat l")
    case True
    show ?thesis
    proof (cases "contains SEP l")
      case sep: True
      then obtain v where v: "py_index (split_once SEP l) 1 = Inr v"
        using split_once_second by blast
      from sep Cons.prems have "\<exists>l\<in>set ls. contains pat l \<and> \<not> contains SEP l" by auto
      with Cons.IH have "scan_lines pat v ls = Inl IndexError" by blast
        with True show ?thesis using v by simp
    next
      case False
      then show ?thesis using True split_once_no_sep [of l] by simp
    qed
  next
    case False
    with Cons.prems have "\<exists>l\<in>set ls. contains pat l \<and> \<not> contains SEP l" by auto
    with Cons.IH have "scan_lines pat acc ls = Inl IndexError" by blast
    with False show ?thesis by simp
  qed
qed

lemma scan_lines_only:
  assumes "\<forall>l\<in>set ls. contains pat l \<longrightarrow> l = target"
    and "py_index (split_once SEP target) 1 = Inr v"
  shows "scan_lines pat acc ls = Inr (if \<exists>l\<in>set ls. contains pat l then v else acc)"
  using assms(1)
proof (induction ls arbitrary: acc)
  case Nil
  then show ?case by simp
next
  case (Cons l ls)
  then have ih: "\<And>a. scan_lines pat a ls = Inr (if \<exists>l\<in>set ls. contains pat l then v else a)"
    by simp
  show ?case
  proof (cases "contains pat l")
    case True
    with Cons.prems have "l = target" by simp
    with True show ?thesis using assms(2) by (simp add: ih)
  next
    case False
    then show ?thesis by (simp add: ih)
  qed
qed

lemma scan_lines_last_match:
  assumes ok: "\<forall>l\<in>set (before @ line # after). contains pat l \<longrightarrow> contains SEP l"
    and m: "contains pat line"
    and rest: "\<forall>l\<in>set after. \<not> contains pat l"
    and v: "line = pre @ SEP @ v" "\<not> contains SEP (pre @ butlast SEP)"
  shows "scan_lines pat acc (before @ line # after) = Inr v"
proof -
  from ok have "\<forall>l\<in>set before. contains pat l \<longrightarrow> contains SEP l" by simp
  then obtain a where a: "scan_lines pat acc before = Inr a"
    using scan_lines_returns by blast
  have "find_split SEP line = Some (pre, v)"
    unfolding v(1) using SEP_not_empty v(2) by (rule find_split_first)
  then have i: "py_index (split_once SEP line) 1 = Inr v"
    by (simp add: split_once_def py_index_def)
  have "scan_lines pat v after = Inr v"
    using rest by (rule scan_lines_no_match)
  with m have "scan_lines pat a (line # after) = Inr v" using i by simp
  with a show ?thesis by (simp add: scan_lines_append)
qed

lemma two_labelled_lines:
  assumes sl: "sl \<in> set (splitlines text)" and rl: "rl \<in> set (splitlines text)"
    and others: "\<forall>l\<in>set (splitlines text). l \<noteq> sl \<and> l \<noteq> rl \<longrightarrow>
        \<not> contains RPI_SERIAL_PATTERN l \<and> \<not> contains RPI_REVISION_PATTERN l"
    and labels: "contains RPI_SERIAL_PATTERN sl" "\<not> contains RPI_REVISION_PATTERN sl"
      "contains RPI_REVISION_PATTERN rl" "\<not> contains RPI_SERIAL_PATTERN rl"
    and vals: "py_index (split_once SEP sl) 1 = Inr sn" "py_index (split_once SEP rl) 1 = Inr rv"
  shows "get_rpi_serial_number text = Inr sn \<and> get_rpi_revision text = Inr rv"
proof -
  have "\<forall>l\<in>set (splitlines text). contains RPI_SERIAL_PATTERN l \<longrightarrow> l = sl"
  proof (intro ballI impI)
    fix l assume "l \<in> set (splitlines text)" "contains RPI_SERIAL_PATTERN l"
    with others labels(4) show "l = sl" by (cases "l = rl") auto
  qed
  then have "scan_lines RPI_SERIAL_PATTERN [] (splitlines text) =
      Inr (if \<exists>l\<in>set (splitlines text). contains RPI_SERIAL_PATTERN l then sn else [])"
    using vals(1) by (rule scan_lines_only)
  moreover have "\<exists>l\<in>set (splitlines text). contains RPI_SERIAL_PATTERN l"
    using sl labels(1) by (rule bexI [rotated])
  ultimately have s: "get_rpi_serial_number text = Inr sn"
    by (simp add: get_rpi_serial_number_def)
  have "\<forall>l\<in>set (splitlines text). contains RPI_REVISION_PATTERN l \<longrightarrow> l = rl"
  proof (intro ballI impI)
    fix l assume "l \<in> set (splitlines text)" "contains RPI_REVISION_PATTERN l"
    with others labels(2) show "l = rl" by (cases "l = sl") auto
  qed
  then have "scan_lines RPI_REVISION_PATTERN [] (splitlines text) =
      Inr (if \<exists>l\<in>set (splitlines text). contains RPI_REVISION_PATTERN l then rv else [])"
    using vals(2) by (rule scan_lines_only)
  moreover have "\<exists>l\<in>set (splitlines text). contains RPI_REVISION_PATTERN l"
    using rl labels(3) by (rule bexI [rotated])
  ultimately have r: "get_rpi_revision text = Inr rv"
    by (simp add: get_rpi_revision_def)
  from s r show ?thesis by simp
qed

lemma generate_eui_fields:
  assumes "get_rpi_serial_number text = Inr sn" "get_rpi_revision text = Inr rv"
  shows "generate_eui up text =
     (if length sn \<noteq> 16 \<and> length sn \<noteq> 8 then Inr INVALID_EUI
      else if length rv \<noteq> 6 then Inr INVALID_EUI
      else if length (assemble rv sn) \<noteq> EUI_CHARS_LENGTH then Inr INVALID_EUI
      else Inr (upper up (assemble rv sn)))"
  using assms by (simp add: generate_eui_def Let_def)

section \<open>The empty text\<close>

text \<open>
  C5. For the empty input text both extractions return the empty string, the length
  validation fails and \<open>generate_eui\<close> returns the sentinel \<open>FFFFFFFFFFFFFFFF\<close>,
  whatever the uppercase table.
\<close>

theorem generate_eui_empty:
  "get_rpi_serial_number [] = Inr [] \<and> get_rpi_revision [] = Inr [] \<and>
   generate_eui up [] = Inr (str ''FFFFFFFFFFFFFFFF'')"
  by (simp add: generate_eui_def get_rpi_serial_number_def get_rpi_revision_def
      splitlines_def INVALID_EUI_def)

section \<open>The two worked examples\<close>

lemma serial16_line:
  "contains RPI_SERIAL_PATTERN (str ''Serial : 1234567890ABCDEF'')"
  "\<not> contains RPI_REVISION_PATTERN (str ''Serial : 1234567890ABCDEF'')"
  "py_index (split_once SEP (str ''Serial : 1234567890ABCDEF'')) 1 = Inr (str ''1234567890ABCDEF'')"
  by (simp_all add: text_defs)

lemma revision_upper_line:
  "contains RPI_REVISION_PATTERN (str ''Revision : A03140'')"
  "\<not> contains RPI_SERIAL_PATTERN (str ''Revision : A03140'')"
  "py_index (split_once SEP (str ''Revision : A03140'')) 1 = Inr (str ''A03140'')"
  by (simp_all add: text_defs)

lemma serial8_line:
  "contains RPI_SERIAL_PATTERN (str ''Serial : 90ABCDEF'')"
  "\<not> contains RPI_REVISION_PATTERN (str ''Serial : 90ABCDEF'')"
  "py_index (split_once SEP (str ''Serial : 90ABCDEF'')) 1 = Inr (str ''90ABCDEF'')"
  by (simp_all add: text_defs)

lemma revision_lower_line:
  "contains RPI_REVISION_PATTERN (str ''Revision : a03140'')"
  "\<not> contains RPI_SERIAL_PATTERN (str ''Revision : a03140'')"
  "py_index (split_once SEP (str ''Revision : a03140'')) 1 = Inr (str ''a03140'')"
  by (simp_all add: text_defs)

text \<open>
  C1. For every input text that has a line \<open>Serial : 1234567890ABCDEF\<close> and a line
  \<open>Revision : A03140\<close>, and no other line containing \<open>Serial\<close> or \<open>Revision\<close>,
  \<open>generate_eui\<close> returns \<open>02A0314090ABCDEF\<close>: the first eight characters of the
  serial number are dropped and the result is \<open>02\<close>, the revision and the last eight
  characters of the serial number, in upper case.
\<close>

theorem generate_eui_serial16:
  assumes "ascii_upper_ok up"
    and "str ''Serial : 1234567890ABCDEF'' \<in> set (splitlines text)"
    and "str ''Revision : A03140'' \<in> set (splitlines text)"
    and "\<forall>l\<in>set (splitlines text).
           l \<noteq> str ''Serial : 1234567890ABCDEF'' \<and> l \<noteq> str ''Revision : A03140'' \<longrightarrow>
           \<not> contains RPI_SERIAL_PATTERN l \<and> \<not> contains RPI_REVISION_PATTERN l"
  shows "generate_eui up text = Inr (str ''02A0314090ABCDEF'')"
proof -
  have f: "get_rpi_serial_number text = Inr (str ''1234567890ABCDEF'') \<and>
      get_rpi_revision text = Inr (str ''A03140'')"
    using assms(2,3,4) serial16_line(1,2) revision_upper_line(1,2) serial16_line(3)
      revision_upper_line(3)
    by (rule two_labelled_lines)
  have a: "assemble (str ''A03140'') (str ''1234567890ABCDEF'') = str ''02A0314090ABCDEF''"
    by (simp add: assemble_def EUI_FIRST_OCTECT_LOCAL_ADMINISTRED_def str_def)
  have u: "upper up (str ''02A0314090ABCDEF'') = str ''02A0314090ABCDEF''"
    by (simp add: upper_def str_def ascii_upper_okD [OF assms(1)] ascii_upper_char_def)
  from f have "generate_eui up text = Inr (upper up (assemble (str ''A03140'') (str ''1234567890ABCDEF'')))"
    by (simp add: generate_eui_fields a EUI_CHARS_LENGTH_def) (simp add: str_def)
  with a u show ?thesis by simp
qed

theorem generate_eui_serial16_witness:
  "generate_eui ascii_upper_char
     (str ''processor : 0'' @ [10] @ str ''Revision : A03140'' @ [10] @
      str ''Serial : 1234567890ABCDEF'' @ [10] @ str ''Model : Raspberry Pi'' @ [10])
   = Inr (str ''02A0314090ABCDEF'')"
  by (rule generate_eui_serial16 [OF ascii_upper_char_ok])
     (simp_all add: splitlines_def is_line_boundary_def text_defs)

text \<open>
  C6. For every input text that has a line \<open>Serial : 90ABCDEF\<close> and a line
  \<open>Revision : a03140\<close>, and no other line containing \<open>Serial\<close> or \<open>Revision\<close>,
  \<open>generate_eui\<close> returns \<open>02A0314090ABCDEF\<close>: a serial number of eight characters
  is used as it is and lowercase input is in upper case in the output.
\<close>

theorem generate_eui_serial8_lowercase:
  assumes "ascii_upper_ok up"
    and "str ''Serial : 90ABCDEF'' \<in> set (splitlines text)"
    and "str ''Revision : a03140'' \<in> set (splitlines text)"
    and "\<forall>l\<in>set (splitlines text).
           l \<noteq> str ''Serial : 90ABCDEF'' \<and> l \<noteq> str ''Revision : a03140'' \<longrightarrow>
           \<not> contains RPI_SERIAL_PATTERN l \<and> \<not> contains RPI_REVISION_PATTERN l"
  shows "generate_eui up text = Inr (str ''02A0314090ABCDEF'')"
proof -
  have f: "get_rpi_serial_number text = Inr (str ''90ABCDEF'') \<and>
      get_rpi_revision text = Inr (str ''a03140'')"
    using assms(2,3,4) serial8_line(1,2) revision_lower_line(1,2) serial8_line(3)
      revision_lower_line(3)
    by (rule two_labelled_lines)
  have a: "assemble (str ''a03140'') (str ''90ABCDEF'') = str ''02a0314090ABCDEF''"
    by (simp add: assemble_def EUI_FIRST_OCTECT_LOCAL_ADMINISTRED_def str_def)
  have u: "upper up (str ''02a0314090ABCDEF'') = str ''02A0314090ABCDEF''"
    by (simp add: upper_def str_def ascii_upper_okD [OF assms(1)] ascii_upper_char_def)
  from f have "generate_eui up text = Inr (upper up (assemble (str ''a03140'') (str ''90ABCDEF'')))"
    by (simp add: generate_eui_fields a EUI_CHARS_LENGTH_def) (simp add: str_def)
  with a u show ?thesis by simp
qed

theorem generate_eui_serial8_lowercase_witness:
  "generate_eui ascii_upper_char
     (str ''Serial : 90ABCDEF'' @ [13, 10] @ str ''Revision : a03140'')
   = Inr (str ''02A0314090ABCDEF'')"
  by (rule generate_eui_serial8_lowercase [OF ascii_upper_char_ok])
     (simp_all add: splitlines_def is_line_boundary_def text_defs)

section \<open>The extraction\<close>

text \<open>
  C3. Let \<open>extract\<close> be \<open>get_rpi_serial_number\<close> with the pattern \<open>Serial\<close>, or
  \<open>get_rpi_revision\<close> with the pattern \<open>Revision\<close>. For every input text in which every
  line containing the pattern also contains the separator \<open>": "\<close>: if no line contains
  the pattern the result is the empty string; otherwise, for the last line that contains
  the pattern (no line after it does), the result is everything after the first occurrence
  of the separator on that line, that is \<open>v\<close> when the line is \<open>pre\<close>, the separator and
  \<open>v\<close>, and no occurrence of the separator starts inside \<open>pre\<close>. So of two \<open>Serial\<close>
  lines the later one gives the result.
\<close>

theorem extract_last_match:
  assumes "pat = RPI_SERIAL_PATTERN \<and> extract = get_rpi_serial_number \<or>
           pat = RPI_REVISION_PATTERN \<and> extract = get_rpi_revision"
    and "\<forall>l\<in>set (splitlines text). contains pat l \<longrightarrow> contains SEP l"
  shows "((\<forall>l\<in>set (splitlines text). \<not> contains pat l) \<longrightarrow> extract text = Inr []) \<and>
         (splitlines text = before @ line # after \<and> contains pat line \<and>
          (\<forall>l\<in>set after. \<not> contains pat l) \<and>
          line = pre @ SEP @ v \<and> \<not> contains SEP (pre @ butlast SEP) \<longrightarrow>
          extract text = Inr v)"
proof -
  from assms(1) have e: "extract text = scan_lines pat [] (splitlines text)"
    by (auto simp: get_rpi_serial_number_def get_rpi_revision_def)
  have none: "(\<forall>l\<in>set (splitlines text). \<not> contains pat l) \<longrightarrow> extract text = Inr []"
    unfolding e by (simp add: scan_lines_no_match)
  have last: "extract text = Inr v"
    if d: "splitlines text = before @ line # after" and m: "contains pat line"
      and r: "\<forall>l\<in>set after. \<not> contains pat l"
      and v: "line = pre @ SEP @ v" "\<not> contains SEP (pre @ butlast SEP)"
  proof -
    from assms(2) have "\<forall>l\<in>set (before @ line # after). contains pat l \<longrightarrow> contains SEP l"
      unfolding d .
    then have "scan_lines pat [] (before @ line # after) = Inr v"
      using m r v by (rule scan_lines_last_match)
    then show ?thesis unfolding e d .
  qed
  show ?thesis
  proof (intro conjI impI, goal_cases)
    case 1
    with none show ?case by (rule mp)
  next
    case 2
    then show ?case by (elim conjE) (rule last)
  qed
qed

theorem extract_last_match_witness:
  "get_rpi_serial_number
     (str ''Serial : 0001'' @ [10] @ str ''Revision : a0'' @ [10] @
      str ''Serial : 0002: 3'' @ [10] @ str ''Revision : b1'' @ [10] @ str ''Hardware : x'')
     = Inr (str ''0002: 3'') \<and>
   get_rpi_revision
     (str ''Serial : 0001'' @ [10] @ str ''Revision : a0'' @ [10] @
      str ''Serial : 0002: 3'' @ [10] @ str ''Revision : b1'' @ [10] @ str ''Hardware : x'')
     = Inr (str ''b1'') \<and>
   get_rpi_serial_number (str ''Hardware : x'') = Inr [] \<and>
   get_rpi_revision (str ''Hardware : x'') = Inr []"
proof -
  let ?t = "str ''Serial : 0001'' @ [10] @ str ''Revision : a0'' @ [10] @
      str ''Serial : 0002: 3'' @ [10] @ str ''Revision : b1'' @ [10] @ str ''Hardware : x''"
  have l: "splitlines ?t = [str ''Serial : 0001'', str ''Revision : a0'', str ''Serial : 0002: 3'',
      str ''Revision : b1'', str ''Hardware : x'']"
    by (simp add: splitlines_def is_line_boundary_def str_def)
  have h: "splitlines (str ''Hardware : x'') = [str ''Hardware : x'']"
    by (simp add: splitlines_def is_line_boundary_def str_def)
  have "get_rpi_serial_number ?t = Inr (str ''0002: 3'')"
    using extract_last_match [of RPI_SERIAL_PATTERN get_rpi_serial_number ?t
        "[str ''Serial : 0001'', str ''Revision : a0'']" "str ''Serial : 0002: 3''"
        "[str ''Revision : b1'', str ''Hardware : x'']" "str ''Serial ''" "str ''0002: 3''"]
    unfolding l by (simp add: text_defs)
  moreover have "get_rpi_revision ?t = Inr (str ''b1'')"
    using extract_last_match [of RPI_REVISION_PATTERN get_rpi_revision ?t
        "[str ''Serial : 0001'', str ''Revision : a0'', str ''Serial : 0002: 3'']"
        "str ''Revision : b1''" "[str ''Hardware : x'']" "str ''Revision ''" "str ''b1''"]
    unfolding l by (simp add: text_defs)
  moreover have "get_rpi_serial_number (str ''Hardware : x'') = Inr []"
    using extract_last_match [of RPI_SERIAL_PATTERN get_rpi_serial_number "str ''Hardware : x''"]
    unfolding h by (simp add: text_defs)
  moreover have "get_rpi_revision (str ''Hardware : x'') = Inr []"
    using extract_last_match [of RPI_REVISION_PATTERN get_rpi_revision "str ''Hardware : x''"]
    unfolding h by (simp add: text_defs)
  ultimately show ?thesis by simp
qed

text \<open>
  C8. There is an input text with a line that contains the label \<open>Serial\<close> and no
  separator \<open>": "\<close> on which \<open>get_rpi_serial_number\<close> fails with \<open>IndexError\<close>
  instead of returning a value (element 1 of a split result of one element), and likewise
  for \<open>Revision\<close> and \<open>get_rpi_revision\<close>.
\<close>

theorem extraction_raises_without_separator:
  "(\<exists>text line. line \<in> set (splitlines text) \<and> contains RPI_SERIAL_PATTERN line \<and>
      \<not> contains SEP line \<and> get_rpi_serial_number text = Inl IndexError) \<and>
   (\<exists>text line. line \<in> set (splitlines text) \<and> contains RPI_REVISION_PATTERN line \<and>
      \<not> contains SEP line \<and> get_rpi_revision text = Inl IndexError)"
proof
  have "str ''Serial:1234'' \<in> set (splitlines (str ''Serial:1234'')) \<and>
      contains RPI_SERIAL_PATTERN (str ''Serial:1234'') \<and> \<not> contains SEP (str ''Serial:1234'') \<and>
      get_rpi_serial_number (str ''Serial:1234'') = Inl IndexError"
    by (simp add: get_rpi_serial_number_def splitlines_def is_line_boundary_def text_defs)
  then show "\<exists>text line. line \<in> set (splitlines text) \<and> contains RPI_SERIAL_PATTERN line \<and>
      \<not> contains SEP line \<and> get_rpi_serial_number text = Inl IndexError"
    by (intro exI)
next
  have "str ''Revision'' \<in> set (splitlines (str ''Revision'')) \<and>
      contains RPI_REVISION_PATTERN (str ''Revision'') \<and> \<not> contains SEP (str ''Revision'') \<and>
      get_rpi_revision (str ''Revision'') = Inl IndexError"
    by (simp add: get_rpi_revision_def splitlines_def is_line_boundary_def text_defs)
  then show "\<exists>text line. line \<in> set (splitlines text) \<and> contains RPI_REVISION_PATTERN line \<and>
      \<not> contains SEP line \<and> get_rpi_revision text = Inl IndexError"
    by (intro exI)
qed

section \<open>The length validation\<close>

text \<open>
  When both fields are extracted, a serial number of neither 8 nor 16 characters, or a
  revision of other than 6, gives the sentinel, whatever the other field.
\<close>

lemma bad_length_gives_sentinel:
  assumes "get_rpi_serial_number text = Inr sn" and "get_rpi_revision text = Inr rv"
    and "(length sn \<noteq> 8 \<and> length sn \<noteq> 16) \<or> length rv \<noteq> 6"
  shows "generate_eui up text = Inr INVALID_EUI"
  using assms(3) by (auto simp: generate_eui_fields [OF assms(1,2)])

lemma bad_revision_5:
  "get_rpi_serial_number (str ''Serial : 90ABCDEF'' @ [10] @ str ''Revision : A0314'')
     = Inr (str ''90ABCDEF'')"
  "get_rpi_revision (str ''Serial : 90ABCDEF'' @ [10] @ str ''Revision : A0314'')
     = Inr (str ''A0314'')"
  by (simp_all add: get_rpi_serial_number_def get_rpi_revision_def splitlines_def
      is_line_boundary_def text_defs)

lemma bad_revision_5_sentinel:
  "generate_eui up (str ''Serial : 90ABCDEF'' @ [10] @ str ''Revision : A0314'')
     = Inr (str ''FFFFFFFFFFFFFFFF'')"
  using bad_length_gives_sentinel [OF bad_revision_5, of up]
  by (simp add: INVALID_EUI_def str_def)

text \<open>
  C4. The sentinel is to be returned for every input text whose extracted serial number
  has neither exactly 8 nor exactly 16 characters, or whose extracted revision has not
  exactly 6, whatever the other field; \<open>INVALID_EUI\<close> is, by its comment, the value
  returned if something fails. The script does not return it when the line of the other
  field has no separator. In \<open>Serial : 123\<close>, \<open>Revision\<close> the serial number extracted
  has 3 characters, the extraction of the revision raises \<open>IndexError\<close> and so does
  \<open>generate_eui\<close>. In \<open>Serial\<close>, \<open>Revision : A0314\<close> the revision extracted has 5
  characters, the extraction of the serial number raises and so does \<open>generate_eui\<close>.
\<close>

theorem generate_eui_bad_length_raises:
  "get_rpi_serial_number (str ''Serial : 123'' @ [10] @ str ''Revision'') = Inr (str ''123'') \<and>
   get_rpi_revision (str ''Serial : 123'' @ [10] @ str ''Revision'') = Inl IndexError \<and>
   generate_eui up (str ''Serial : 123'' @ [10] @ str ''Revision'') = Inl IndexError \<and>
   get_rpi_serial_number (str ''Serial'' @ [10] @ str ''Revision : A0314'') = Inl IndexError \<and>
   get_rpi_revision (str ''Serial'' @ [10] @ str ''Revision : A0314'') = Inr (str ''A0314'') \<and>
   generate_eui up (str ''Serial'' @ [10] @ str ''Revision : A0314'') = Inl IndexError"
  by (simp add: generate_eui_def get_rpi_serial_number_def get_rpi_revision_def splitlines_def
      is_line_boundary_def text_defs)

lemma length_assemble:
  assumes "length sn = 8 \<or> length sn = 16" and "length rv = 6"
  shows "length (assemble rv sn) = 16"
  using assms by (auto simp: assemble_def EUI_FIRST_OCTECT_LOCAL_ADMINISTRED_def str_def)

lemma upper_assemble_not_invalid:
  assumes "ascii_upper_ok up"
  shows "upper up (assemble rv sn) \<noteq> INVALID_EUI"
proof -
  have "up 48 = [48]"
    using ascii_upper_okD [OF assms, of 48] by (simp add: ascii_upper_char_def)
  then have "hd (upper up (assemble rv sn)) = 48"
    by (simp add: upper_def assemble_def EUI_FIRST_OCTECT_LOCAL_ADMINISTRED_def str_def)
  moreover have "hd INVALID_EUI = 70"
    by (simp add: INVALID_EUI_def str_def)
  ultimately show ?thesis by auto
qed

text \<open>
  C7. When the extracted serial number has exactly 8 or exactly 16 characters and the
  extracted revision exactly 6, the assembled string, \<open>02\<close>, the revision and the
  serial number cut to 8 characters, has exactly 16 characters: the final length check
  passes and \<open>generate_eui\<close> returns the assembled string in upper case, which is not
  the sentinel, so the last sentinel branch is never taken.
\<close>

theorem final_length_check_passes:
  assumes "get_rpi_serial_number text = Inr sn" and "get_rpi_revision text = Inr rv"
    and "length sn = 8 \<or> length sn = 16" and "length rv = 6"
  shows "length (assemble rv sn) = EUI_CHARS_LENGTH \<and>
         generate_eui up text = Inr (upper up (assemble rv sn)) \<and>
         (ascii_upper_ok up \<longrightarrow> generate_eui up text \<noteq> Inr INVALID_EUI)"
proof -
  have l: "length (assemble rv sn) = 16"
    using assms(3,4) by (rule length_assemble)
  have g: "generate_eui up text = Inr (upper up (assemble rv sn))"
    using assms(3,4) l by (auto simp: generate_eui_fields [OF assms(1,2)] EUI_CHARS_LENGTH_def)
  from l g show ?thesis
    by (simp add: EUI_CHARS_LENGTH_def upper_assemble_not_invalid)
qed

lemma good_fields_16:
  "get_rpi_serial_number (str ''Serial : 1234567890ABCDEF'' @ [10] @ str ''Revision : A03140'')
     = Inr (str ''1234567890ABCDEF'')"
  "get_rpi_revision (str ''Serial : 1234567890ABCDEF'' @ [10] @ str ''Revision : A03140'')
     = Inr (str ''A03140'')"
  by (simp_all add: get_rpi_serial_number_def get_rpi_revision_def splitlines_def
      is_line_boundary_def text_defs)

lemma good_fields_other_16:
  "get_rpi_serial_number (str ''Revision : A03140'' @ [10] @ str ''Serial : FFFFFFFF90ABCDEF'')
     = Inr (str ''FFFFFFFF90ABCDEF'')"
  "get_rpi_revision (str ''Revision : A03140'' @ [10] @ str ''Serial : FFFFFFFF90ABCDEF'')
     = Inr (str ''A03140'')"
  by (simp_all add: get_rpi_serial_number_def get_rpi_revision_def splitlines_def
      is_line_boundary_def text_defs)

theorem final_length_check_passes_witness:
  "length (assemble (str ''A03140'') (str ''1234567890ABCDEF'')) = 16 \<and>
   generate_eui ascii_upper_char
     (str ''Serial : 1234567890ABCDEF'' @ [10] @ str ''Revision : A03140'')
     = Inr (upper ascii_upper_char (assemble (str ''A03140'') (str ''1234567890ABCDEF''))) \<and>
   generate_eui ascii_upper_char
     (str ''Serial : 1234567890ABCDEF'' @ [10] @ str ''Revision : A03140'')
     \<noteq> Inr INVALID_EUI"
proof -
  have s: "length (str ''1234567890ABCDEF'') = 8 \<or> length (str ''1234567890ABCDEF'') = 16"
    by (simp add: str_def)
  have r: "length (str ''A03140'') = 6"
    by (simp add: str_def)
  from final_length_check_passes [OF good_fields_16 s r, of ascii_upper_char]
    ascii_upper_char_ok
  show ?thesis unfolding EUI_CHARS_LENGTH_def by fast
qed

text \<open>
  C10. For every two input texts with the same extracted revision and with extracted
  serial numbers of 16 characters that agree on their last 8 characters,
  \<open>generate_eui\<close> returns the same result: the first 8 characters of a serial number
  of 16 are dropped without being looked at.
\<close>

theorem leading_serial_chars_ignored:
  assumes "get_rpi_revision text1 = Inr rv" and "get_rpi_revision text2 = Inr rv"
    and "get_rpi_serial_number text1 = Inr sn1" and "get_rpi_serial_number text2 = Inr sn2"
    and "length sn1 = 16" and "length sn2 = 16"
    and "drop 8 sn1 = drop 8 sn2"
  shows "generate_eui up text1 = generate_eui up text2"
  using assms(5,6,7)
  by (simp add: generate_eui_fields [OF assms(3,1)] generate_eui_fields [OF assms(4,2)]
      assemble_def)

theorem leading_serial_chars_ignored_witness:
  "generate_eui ascii_upper_char
     (str ''Serial : 1234567890ABCDEF'' @ [10] @ str ''Revision : A03140'') =
   generate_eui ascii_upper_char
     (str ''Revision : A03140'' @ [10] @ str ''Serial : FFFFFFFF90ABCDEF'')"
  using leading_serial_chars_ignored [OF good_fields_16(2) good_fields_other_16(2)
      good_fields_16(1) good_fields_other_16(1), of ascii_upper_char]
  by (simp add: str_def)

section \<open>The shape of the result\<close>

lemma upper_hex:
  assumes "ascii_upper_ok up" and "list_all is_hex_digit s"
  shows "length (upper up s) = length s \<and> list_all is_upper_hex_digit (upper up s)"
  using assms(2)
proof (induction s)
  case Nil
  then show ?case by (simp add: upper_def)
next
  case (Cons c s)
  then have c: "is_hex_digit c" and ih: "length (upper up s) = length s"
    "list_all is_upper_hex_digit (upper up s)"
    by simp_all
  from c have "0 \<le> c" "c \<le> 127" by (auto simp: is_hex_digit_def)
  with assms(1) have "up c = ascii_upper_char c" by (rule ascii_upper_okD)
  moreover have "upper up (c # s) = up c @ upper up s" by (simp add: upper_def)
  moreover from c have "list_all is_upper_hex_digit (ascii_upper_char c)"
    by (auto simp: is_hex_digit_def is_upper_hex_digit_def ascii_upper_char_def)
  moreover have "length (ascii_upper_char c) = 1" by (simp add: ascii_upper_char_def)
  ultimately show ?case using ih by simp
qed

lemma assemble_hex:
  assumes "list_all is_hex_digit sn" and "list_all is_hex_digit rv"
  shows "list_all is_hex_digit (assemble rv sn)"
proof -
  have "list_all is_hex_digit EUI_FIRST_OCTECT_LOCAL_ADMINISTRED"
    by (simp add: EUI_FIRST_OCTECT_LOCAL_ADMINISTRED_def str_def is_hex_digit_def)
  moreover from assms(1) have "list_all is_hex_digit (drop 8 sn)"
    by (auto simp: list_all_iff dest: in_set_dropD)
  ultimately show ?thesis using assms by (simp add: assemble_def)
qed

text \<open>
  C2, amended. For every input text whose extracted serial number and revision consist of
  hexadecimal digits only (0-9, a-f, A-F): if \<open>generate_eui\<close> returns a value other
  than the sentinel, that value has exactly 16 characters and each of them is an uppercase
  hexadecimal digit (0-9, A-F). The lengths of the fields are validated, their characters
  are not, hence the restriction.
\<close>

theorem generate_eui_hex_fields:
  assumes "ascii_upper_ok up"
    and "get_rpi_serial_number text = Inr sn" and "get_rpi_revision text = Inr rv"
    and "list_all is_hex_digit sn" and "list_all is_hex_digit rv"
    and "generate_eui up text = Inr eui" and "eui \<noteq> INVALID_EUI"
  shows "length eui = 16 \<and> list_all is_upper_hex_digit eui"
proof -
  from assms(6,7) have l: "length (assemble rv sn) = 16" and e: "eui = upper up (assemble rv sn)"
    by (auto simp: generate_eui_fields [OF assms(2,3)] EUI_CHARS_LENGTH_def split: if_splits)
  have "list_all is_hex_digit (assemble rv sn)"
    using assms(4,5) by (rule assemble_hex)
  with assms(1) have "length (upper up (assemble rv sn)) = length (assemble rv sn) \<and>
      list_all is_upper_hex_digit (upper up (assemble rv sn))"
    by (rule upper_hex)
  with l e show ?thesis by simp
qed

lemma good_fields_8_lower:
  "get_rpi_serial_number (str ''Serial : 90abcdef'' @ [10] @ str ''Revision : a03140'')
     = Inr (str ''90abcdef'')"
  "get_rpi_revision (str ''Serial : 90abcdef'' @ [10] @ str ''Revision : a03140'')
     = Inr (str ''a03140'')"
  by (simp_all add: get_rpi_serial_number_def get_rpi_revision_def splitlines_def
      is_line_boundary_def text_defs)

lemma eui_8_lower:
  "generate_eui ascii_upper_char (str ''Serial : 90abcdef'' @ [10] @ str ''Revision : a03140'')
     = Inr (str ''02A0314090ABCDEF'')"
  using generate_eui_fields [OF good_fields_8_lower, of ascii_upper_char]
  by (simp add: EUI_CHARS_LENGTH_def assemble_def EUI_FIRST_OCTECT_LOCAL_ADMINISTRED_def
      upper_def ascii_upper_char_def str_def)

theorem generate_eui_hex_fields_witness:
  "generate_eui ascii_upper_char (str ''Serial : 90abcdef'' @ [10] @ str ''Revision : a03140'')
     = Inr (str ''02A0314090ABCDEF'') \<and>
   length (str ''02A0314090ABCDEF'') = 16 \<and>
   list_all is_upper_hex_digit (str ''02A0314090ABCDEF'')"
proof -
  have s: "list_all is_hex_digit (str ''90abcdef'')"
    by (simp add: str_def is_hex_digit_def)
  have r: "list_all is_hex_digit (str ''a03140'')"
    by (simp add: str_def is_hex_digit_def)
  have n: "str ''02A0314090ABCDEF'' \<noteq> INVALID_EUI"
    by (simp add: INVALID_EUI_def str_def)
  from generate_eui_hex_fields [OF ascii_upper_char_ok good_fields_8_lower s r eui_8_lower n]
    eui_8_lower
  show ?thesis by fast
qed

text \<open>
  Without the restriction the property fails: fields of the right lengths that are not
  hexadecimal give a result that is not hexadecimal.
\<close>

theorem generate_eui_not_hex_counterexample:
  "generate_eui ascii_upper_char (str ''Serial : ZZZZZZZZ'' @ [10] @ str ''Revision : GGGGGG'')
     = Inr (str ''02GGGGGGZZZZZZZZ'') \<and>
   str ''02GGGGGGZZZZZZZZ'' \<noteq> INVALID_EUI \<and>
   \<not> list_all is_upper_hex_digit (str ''02GGGGGGZZZZZZZZ'')"
proof -
  have f: "get_rpi_serial_number (str ''Serial : ZZZZZZZZ'' @ [10] @ str ''Revision : GGGGGG'')
       = Inr (str ''ZZZZZZZZ'')"
    "get_rpi_revision (str ''Serial : ZZZZZZZZ'' @ [10] @ str ''Revision : GGGGGG'')
       = Inr (str ''GGGGGG'')"
    by (simp_all add: get_rpi_serial_number_def get_rpi_revision_def splitlines_def
        is_line_boundary_def text_defs)
  have "generate_eui ascii_upper_char
      (str ''Serial : ZZZZZZZZ'' @ [10] @ str ''Revision : GGGGGG'') = Inr (str ''02GGGGGGZZZZZZZZ'')"
    using generate_eui_fields [OF f, of ascii_upper_char]
    by (simp add: EUI_CHARS_LENGTH_def assemble_def EUI_FIRST_OCTECT_LOCAL_ADMINISTRED_def
        upper_def ascii_upper_char_def str_def)
  moreover have "str ''02GGGGGGZZZZZZZZ'' \<noteq> INVALID_EUI"
    by (simp add: INVALID_EUI_def str_def)
  moreover have "\<not> list_all is_upper_hex_digit (str ''02GGGGGGZZZZZZZZ'')"
    by (simp add: str_def is_upper_hex_digit_def)
  ultimately show ?thesis by fast
qed

section \<open>Reading the file\<close>

text \<open>
  C9, amended. For every file system and every path: if opening the file fails, or reading
  it fails, or closing it fails, with an \<open>Exception\<close>, as a missing file, a refused
  permission and an input/output error are, \<open>file_read_text\<close> returns the empty string
  and raises nothing; if the three succeed it returns the whole text that was read.
\<close>

theorem file_read_text_fail_soft:
  "(fs_open fs file_path = Inl e \<and> is_Exception e \<longrightarrow> file_read_text fs file_path = Inr []) \<and>
   (fs_open fs file_path = Inr f \<and> fs_read fs f = Inl e \<and> is_Exception e \<and>
      fs_close fs f = None \<longrightarrow> file_read_text fs file_path = Inr []) \<and>
   (fs_open fs file_path = Inr f \<and> fs_close fs f = Some e \<and> is_Exception e \<longrightarrow>
      file_read_text fs file_path = Inr []) \<and>
   (fs_open fs file_path = Inr f \<and> fs_read fs f = Inr content \<and> fs_close fs f = None \<longrightarrow>
      file_read_text fs file_path = Inr content) \<and>
   is_Exception FileNotFoundError \<and> is_Exception PermissionError \<and> is_Exception OSError"
proof (intro conjI impI)
  assume "fs_open fs file_path = Inl e \<and> is_Exception e"
  then have "with_open_read fs file_path = Inl e" and "is_Exception e"
    by (simp_all add: with_open_read_def)
  then show "file_read_text fs file_path = Inr []"
    by (simp add: file_read_text_def)
next
  assume "fs_open fs file_path = Inr f \<and> fs_read fs f = Inl e \<and> is_Exception e \<and>
      fs_close fs f = None"
  then have "with_open_read fs file_path = Inl e" and "is_Exception e"
    by (simp_all add: with_open_read_def)
  then show "file_read_text fs file_path = Inr []"
    by (simp add: file_read_text_def)
next
  assume "fs_open fs file_path = Inr f \<and> fs_close fs f = Some e \<and> is_Exception e"
  then have "with_open_read fs file_path = Inl e" and "is_Exception e"
    by (simp_all add: with_open_read_def split: sum.split)
  then show "file_read_text fs file_path = Inr []"
    by (simp add: file_read_text_def)
next
  assume "fs_open fs file_path = Inr f \<and> fs_read fs f = Inr content \<and> fs_close fs f = None"
  then have "with_open_read fs file_path = Inr content"
    by (simp add: with_open_read_def)
  then show "file_read_text fs file_path = Inr content"
    by (simp add: file_read_text_def)
qed simp_all

theorem file_read_text_fail_soft_witness:
  "file_read_text example_fs (str ''/missing'') = Inr [] \<and>
   file_read_text example_fs (str ''/root/secret'') = Inr [] \<and>
   file_read_text example_fs (str ''/dev/broken'') = Inr [] \<and>
   file_read_text example_fs (str ''/mnt/stale'') = Inr [] \<and>
   file_read_text example_fs (str ''/proc/cpuinfo'') = Inr (str ''Serial : 90ABCDEF'')"
proof -
  have "file_read_text example_fs (str ''/missing'') = Inr []"
    using file_read_text_fail_soft [of example_fs "str ''/missing''" FileNotFoundError]
    by (simp add: example_fs_def str_def)
  moreover have "file_read_text example_fs (str ''/root/secret'') = Inr []"
    using file_read_text_fail_soft [of example_fs "str ''/root/secret''" PermissionError]
    by (simp add: example_fs_def str_def)
  moreover have "file_read_text example_fs (str ''/dev/broken'') = Inr []"
    using file_read_text_fail_soft [of example_fs "str ''/dev/broken''" OSError 1]
    by (simp add: example_fs_def str_def)
  moreover have "file_read_text example_fs (str ''/mnt/stale'') = Inr []"
    using file_read_text_fail_soft [of example_fs "str ''/mnt/stale''" OSError 2]
    by (simp add: example_fs_def str_def)
  moreover have "file_read_text example_fs (str ''/proc/cpuinfo'') = Inr (str ''Serial : 90ABCDEF'')"
    using file_read_text_fail_soft [of example_fs "str ''/proc/cpuinfo''" _ 0 "str ''Serial : 90ABCDEF''"]
    by (simp add: example_fs_def str_def)
  ultimately show ?thesis by fast
qed

text \<open>
  With opening and reading alone the property fails: the file is opened, the read returns
  its text, the close raises \<open>OSError\<close> inside the \<open>try\<close>, and the result is the
  empty string and not the text read.
\<close>

theorem file_read_text_close_counterexample:
  "fs_open example_fs (str ''/mnt/stale'') = Inr 2 \<and>
   fs_read example_fs 2 = Inr (str ''Serial : 90ABCDEF'') \<and>
   file_read_text example_fs (str ''/mnt/stale'') = Inr [] \<and>
   file_read_text example_fs (str ''/mnt/stale'') \<noteq> Inr (str ''Serial : 90ABCDEF'')"
  by (simp add: file_read_text_def with_open_read_def example_fs_def str_def)

end
